theory Spec2Isabelle
  imports Complex_Main
begin

section \<open>Python values\<close>

text \<open>
  The exceptions that the modelled code can raise. A raise is the \<open>Inl\<close> branch of a
  sum type.
\<close>

datatype py_error = TypeError | ValueError | OverflowError | AttributeError | UnboundLocalError

text \<open>
  A Python float: a finite value (kept exact, as a rational; rounding of IEEE doubles is
  not modelled), the two infinities, or NaN.
\<close>

datatype pyfloat = Finite rat | PosInf | NegInf | NaN

text \<open>
  The values that arrive from the tag store and in update dictionaries: the JSON-like
  part of Python. A dict is the list of its items, looked up with \<open>map_of\<close>.
\<close>

datatype pyval =
    PNone
  | PBool bool
  | PInt int
  | PFloat pyfloat
  | PStr string
  | PList "pyval list"
  | PDict "(string \<times> pyval) list"

text \<open>
  Builtins of Python whose results are text processing outside this repository:
  \<open>float(s)\<close> on a string (\<open>None\<close> is ValueError), \<open>str(v)\<close> on a value that is
  not a string, and \<open>datetime.isoformat()\<close>. They are parameters of the model.
\<close>

record builtins =
  float_of_str :: "string \<Rightarrow> pyfloat option"
  str_of :: "pyval \<Rightarrow> string"
  isoformat :: "nat \<Rightarrow> string"

definition isfinite :: "pyfloat \<Rightarrow> bool" where
  "isfinite x = (case x of Finite _ \<Rightarrow> True | _ \<Rightarrow> False)"

text \<open>\<open>a == b\<close> on floats: NaN is equal to nothing, itself included.\<close>

definition float_eq :: "pyfloat \<Rightarrow> pyfloat \<Rightarrow> bool" where
  "float_eq a b = (a \<noteq> NaN \<and> b \<noteq> NaN \<and> a = b)"

text \<open>
  \<open>float(v)\<close>. An int converts unless it rounds beyond the largest double
  (from \<open>2^1024 - 2^970\<close> on, in absolute value), where Python raises OverflowError.
\<close>

definition py_float :: "builtins \<Rightarrow> pyval \<Rightarrow> py_error + pyfloat" where
  "py_float B v =
     (case v of
        PNone \<Rightarrow> Inl TypeError
      | PBool b \<Rightarrow> Inr (Finite (if b then 1 else 0))
      | PInt n \<Rightarrow>
          (if \<bar>n\<bar> < 2 ^ 1024 - 2 ^ 970 then Inr (Finite (of_int n)) else Inl OverflowError)
      | PFloat f \<Rightarrow> Inr f
      | PStr s \<Rightarrow> (case float_of_str B s of None \<Rightarrow> Inl ValueError | Some f \<Rightarrow> Inr f)
      | PList _ \<Rightarrow> Inl TypeError
      | PDict _ \<Rightarrow> Inl TypeError)"

text \<open>\<open>str(v)\<close>: a string is itself.\<close>

definition py_str :: "builtins \<Rightarrow> pyval \<Rightarrow> string" where
  "py_str B v = (case v of PStr s \<Rightarrow> s | _ \<Rightarrow> str_of B v)"

text \<open>\<open>d.get(k)\<close> and \<open>d.get(k, default)\<close>.\<close>

definition dict_get :: "(string \<times> pyval) list \<Rightarrow> string \<Rightarrow> pyval" where
  "dict_get d k = (case map_of d k of None \<Rightarrow> PNone | Some v \<Rightarrow> v)"

definition dict_get_default :: "(string \<times> pyval) list \<Rightarrow> string \<Rightarrow> pyval \<Rightarrow> pyval" where
  "dict_get_default d k dflt = (case map_of d k of None \<Rightarrow> dflt | Some v \<Rightarrow> v)"

text \<open>\<open>s.strip().lower()\<close> on ASCII strings.\<close>

definition is_space :: "char \<Rightarrow> bool" where
  "is_space c = (c \<in> set [CHR '' '', CHR 0x09, CHR 0x0A, CHR 0x0B, CHR 0x0C, CHR 0x0D])"

definition strip :: "string \<Rightarrow> string" where
  "strip s = rev (dropWhile is_space (rev (dropWhile is_space s)))"

definition lower_char :: "char \<Rightarrow> char" where
  "lower_char c =
     (let n = (of_char c :: nat) in if 65 \<le> n \<and> n \<le> 90 then char_of (n + 32) else c)"

definition lower :: "string \<Rightarrow> string" where
  "lower s = map lower_char s"

section \<open>DashboardData (dashboard.py)\<close>

text \<open>
  The attributes of \<open>DashboardData\<close>. The class reads and writes its numeric and
  string attributes by name (\<open>getattr\<close>, \<open>setattr\<close>), so the object is a map from
  attribute names to values; \<open>faults\<close> is a dict with two keys.
\<close>

datatype num_attr =
    target_rate | flow_rate
  | pump2_target_rate | pump2_flow_rate
  | battery_voltage | battery_percentage | panel_power | battery_ah
  | tank_level_mm | tank_level_percent
  | skid_flow | skid_pressure

datatype str_attr = pump_state | pump2_pump_state | system_status

datatype fault_key = hh_pressure | ll_tank_level

record dashboard_data =
  num :: "num_attr \<Rightarrow> pyfloat"
  str :: "str_attr \<Rightarrow> string"
  timestamp :: nat
  faults :: "fault_key \<Rightarrow> bool"

text \<open>\<open>DashboardData.__init__\<close>, created at time \<open>now\<close>.\<close>

definition init_data :: "nat \<Rightarrow> dashboard_data" where
  "init_data now =
     \<lparr> num = (\<lambda>_. Finite 0),
       str = (\<lambda>a. if a = system_status then ''running'' else ''standby''),
       timestamp = now,
       faults = (\<lambda>_. False) \<rparr>"

text \<open>\<open>DashboardData.to_dict\<close>.\<close>

definition to_dict :: "builtins \<Rightarrow> dashboard_data \<Rightarrow> pyval" where
  "to_dict B d =
     PDict [
       (''pump'', PDict [
          (''target_rate'', PFloat (num d target_rate)),
          (''flow_rate'', PFloat (num d flow_rate)),
          (''pump_state'', PStr (str d pump_state))]),
       (''pump2'', PDict [
          (''target_rate'', PFloat (num d pump2_target_rate)),
          (''flow_rate'', PFloat (num d pump2_flow_rate)),
          (''pump_state'', PStr (str d pump2_pump_state))]),
       (''solar'', PDict [
          (''battery_voltage'', PFloat (num d battery_voltage)),
          (''battery_percentage'', PFloat (num d battery_percentage)),
          (''panel_power'', PFloat (num d panel_power)),
          (''battery_ah'', PFloat (num d battery_ah))]),
       (''tank'', PDict [
          (''tank_level_mm'', PFloat (num d tank_level_mm)),
          (''tank_level_percent'', PFloat (num d tank_level_percent))]),
       (''skid'', PDict [
          (''skid_flow'', PFloat (num d skid_flow)),
          (''skid_pressure'', PFloat (num d skid_pressure))]),
       (''system'', PDict [
          (''timestamp'', PStr (isoformat B (timestamp d))),
          (''status'', PStr (str d system_status))]),
       (''faults'', PDict [
          (''hh_pressure'', PBool (faults d hh_pressure)),
          (''ll_tank_level'', PBool (faults d ll_tank_level))])]"

text \<open>\<open>DashboardData._to_bool\<close>.\<close>

definition to_bool :: "pyval \<Rightarrow> bool \<Rightarrow> bool" where
  "to_bool v dflt =
     (case v of
        PBool b \<Rightarrow> b
      | PInt n \<Rightarrow> n \<noteq> 0
      | PFloat f \<Rightarrow> f \<noteq> Finite 0
      | PStr s \<Rightarrow> lower (strip s) \<in> set [''true'', ''1'', ''yes'', ''on'']
      | _ \<Rightarrow> dflt)"

text \<open>
  A call on the object either returns (\<open>Inr\<close>: the object after the call and the
  result) or raises (\<open>Inl\<close>: the exception and the object as the call left it).
\<close>

type_synonym 'a upd = "(py_error \<times> dashboard_data) + (dashboard_data \<times> 'a)"

text \<open>
  \<open>DashboardData._update_numeric\<close>. The attributes it is called on always hold floats,
  so the two \<open>isinstance\<close> tests succeed and the last \<open>elif\<close> is never reached.
  Only TypeError and ValueError of \<open>float(value)\<close> are caught.
\<close>

definition update_numeric ::
  "builtins \<Rightarrow> dashboard_data \<Rightarrow> num_attr \<Rightarrow> pyval \<Rightarrow> rat \<Rightarrow> bool upd" where
  "update_numeric B self attr val tolerance =
     (if val = PNone then Inr (self, False)
      else case py_float B val of
        Inl e \<Rightarrow> (if e = TypeError \<or> e = ValueError then Inr (self, False) else Inl (e, self))
      | Inr new_value \<Rightarrow>
          (let current_value = num self attr in
           if (case (current_value, new_value) of
                 (Finite c, Finite n) \<Rightarrow> \<bar>c - n\<bar> \<le> tolerance
               | _ \<Rightarrow> float_eq current_value new_value)
           then Inr (self, False)
           else Inr (self\<lparr>num := (num self)(attr := new_value)\<rparr>, True)))"

text \<open>\<open>DashboardData._update_string\<close>.\<close>

definition update_string ::
  "builtins \<Rightarrow> dashboard_data \<Rightarrow> str_attr \<Rightarrow> pyval \<Rightarrow> dashboard_data \<times> bool" where
  "update_string B self attr val =
     (if val = PNone then (self, False)
      else let new_value = py_str B val in
           if str self attr = new_value then (self, False)
           else (self\<lparr>str := (str self)(attr := new_value)\<rparr>, True))"

text \<open>
  One statement \<open>changed |= self._update_numeric(attr, d.get(key), tolerance=t)\<close> of
  \<open>update_from_dict\<close>, run after what came before it (\<open>r\<close>): a raise ends the
  call.
\<close>

definition then_numeric ::
  "builtins \<Rightarrow> num_attr \<Rightarrow> (string \<times> pyval) list \<Rightarrow> string \<Rightarrow> rat \<Rightarrow> bool upd \<Rightarrow> bool upd" where
  "then_numeric B attr d key tolerance r =
     (case r of
        Inl x \<Rightarrow> Inl x
      | Inr (self, changed) \<Rightarrow>
          (case update_numeric B self attr (dict_get d key) tolerance of
             Inl x \<Rightarrow> Inl x
           | Inr (self', c) \<Rightarrow> Inr (self', changed \<or> c)))"

text \<open>
  One statement \<open>changed |= self._update_string(attr, d.get(key, self.attr))\<close>.
\<close>

definition then_string ::
  "builtins \<Rightarrow> str_attr \<Rightarrow> (string \<times> pyval) list \<Rightarrow> string \<Rightarrow> bool upd \<Rightarrow> bool upd" where
  "then_string B attr d key r =
     (case r of
        Inl x \<Rightarrow> Inl x
      | Inr (self, changed) \<Rightarrow>
          (case update_string B self attr (dict_get_default d key (PStr (str self attr))) of
             (self', c) \<Rightarrow> Inr (self', changed \<or> c)))"

text \<open>
  One block \<open>if key in faults: new_value = self._to_bool(faults.get(key),
  self.faults[key]); if self.faults[key] != new_value: ...\<close>.
\<close>

definition then_fault :: "fault_key \<Rightarrow> (string \<times> pyval) list \<Rightarrow> string \<Rightarrow> bool upd \<Rightarrow> bool upd" where
  "then_fault fk d key r =
     (case r of
        Inl x \<Rightarrow> Inl x
      | Inr (self, changed) \<Rightarrow>
          (case map_of d key of
             None \<Rightarrow> r
           | Some v \<Rightarrow>
               (let new_value = to_bool v (faults self fk) in
                if faults self fk \<noteq> new_value
                then Inr (self\<lparr>faults := (faults self)(fk := new_value)\<rparr>, True)
                else r)))"

text \<open>
  A block \<open>if name in data: sec = data[name]; ...\<close> whose body calls \<open>sec.get\<close>:
  on a value that is not a dict the first \<open>sec.get\<close> raises AttributeError.
\<close>

definition in_section ::
  "(string \<times> pyval) list \<Rightarrow> string \<Rightarrow> ((string \<times> pyval) list \<Rightarrow> bool upd \<Rightarrow> bool upd) \<Rightarrow>
   bool upd \<Rightarrow> bool upd" where
  "in_section data name body r =
     (case r of
        Inl x \<Rightarrow> Inl x
      | Inr (self, changed) \<Rightarrow>
          (case map_of data name of
             None \<Rightarrow> r
           | Some (PDict sec) \<Rightarrow> body sec r
           | Some _ \<Rightarrow> Inl (AttributeError, self)))"

definition sec_pump :: "builtins \<Rightarrow> (string \<times> pyval) list \<Rightarrow> bool upd \<Rightarrow> bool upd" where
  "sec_pump B pump r =
     (let r = then_numeric B target_rate pump ''target_rate'' (5 / 100) r;
          r = then_numeric B flow_rate pump ''flow_rate'' (5 / 100) r;
          r = then_string B pump_state pump ''pump_state'' r
      in r)"

definition sec_pump2 :: "builtins \<Rightarrow> (string \<times> pyval) list \<Rightarrow> bool upd \<Rightarrow> bool upd" where
  "sec_pump2 B pump2 r =
     (let r = then_numeric B pump2_target_rate pump2 ''target_rate'' (5 / 100) r;
          r = then_numeric B pump2_flow_rate pump2 ''flow_rate'' (5 / 100) r;
          r = then_string B pump2_pump_state pump2 ''pump_state'' r
      in r)"

definition sec_solar :: "builtins \<Rightarrow> (string \<times> pyval) list \<Rightarrow> bool upd \<Rightarrow> bool upd" where
  "sec_solar B solar r =
     (let r = then_numeric B battery_voltage solar ''battery_voltage'' (1 / 10) r;
          r = then_numeric B battery_percentage solar ''battery_percentage'' (2 / 10) r;
          r = then_numeric B panel_power solar ''panel_power'' (1 / 10) r;
          r = then_numeric B battery_ah solar ''battery_ah'' (1 / 10) r
      in r)"

definition sec_tank :: "builtins \<Rightarrow> (string \<times> pyval) list \<Rightarrow> bool upd \<Rightarrow> bool upd" where
  "sec_tank B tank r =
     (let r = then_numeric B tank_level_mm tank ''tank_level_mm'' 1 r;
          r = then_numeric B tank_level_percent tank ''tank_level_percent'' 1 r
      in r)"

definition sec_skid :: "builtins \<Rightarrow> (string \<times> pyval) list \<Rightarrow> bool upd \<Rightarrow> bool upd" where
  "sec_skid B skid r =
     (let r = then_numeric B skid_flow skid ''skid_flow'' (1 / 10) r;
          r = then_numeric B skid_pressure skid ''skid_pressure'' 10 r
      in r)"

definition sec_system :: "builtins \<Rightarrow> (string \<times> pyval) list \<Rightarrow> bool upd \<Rightarrow> bool upd" where
  "sec_system B system r = then_string B system_status system ''status'' r"

text \<open>
  The \<open>faults\<close> block tests \<open>isinstance(faults, dict)\<close> first: any other value is
  skipped without a raise.
\<close>

definition sec_faults :: "(string \<times> pyval) list \<Rightarrow> bool upd \<Rightarrow> bool upd" where
  "sec_faults data r =
     (case map_of data ''faults'' of
        Some (PDict fs) \<Rightarrow>
          (let r = then_fault hh_pressure fs ''hh_pressure'' r;
               r = then_fault ll_tank_level fs ''ll_tank_level'' r
           in r)
      | _ \<Rightarrow> r)"

text \<open>The body of \<open>update_from_dict\<close> before the timestamp is touched.\<close>

definition update_fields :: "builtins \<Rightarrow> (string \<times> pyval) list \<Rightarrow> dashboard_data \<Rightarrow> bool upd" where
  "update_fields B data self =
     (let r = Inr (self, False);
          r = in_section data ''pump'' (sec_pump B) r;
          r = in_section data ''pump2'' (sec_pump2 B) r;
          r = in_section data ''solar'' (sec_solar B) r;
          r = in_section data ''tank'' (sec_tank B) r;
          r = in_section data ''skid'' (sec_skid B) r;
          r = in_section data ''system'' (sec_system B) r;
          r = sec_faults data r
      in r)"

text \<open>
  \<open>DashboardData.update_from_dict\<close>, called at time \<open>now\<close> (the value of
  \<open>datetime.now()\<close>).
\<close>

definition update_from_dict ::
  "builtins \<Rightarrow> nat \<Rightarrow> (string \<times> pyval) list \<Rightarrow> dashboard_data \<Rightarrow> bool upd" where
  "update_from_dict B now data self =
     (case update_fields B data self of
        Inl x \<Rightarrow> Inl x
      | Inr (self', changed) \<Rightarrow>
          Inr (if changed then self'\<lparr>timestamp := now\<rparr> else self', changed))"

section \<open>NAPDDashboard and DashboardInterface (dashboard.py)\<close>

text \<open>
  What the program sends out: a Socket.IO event to one client (\<open>emit\<close> inside a
  handler) or to all (\<open>socketio.emit\<close>), a tag write, a digital or analog output.
\<close>

datatype effect =
    Emit string string pyval
  | Broadcast string pyval
  | SetTag string pyval string
  | SetDO int bool
  | SetAO int rat

record napd_dashboard =
  data :: dashboard_data
  connected_clients :: "string set"

text \<open>\<open>handle_connect\<close>, for the client \<open>sid\<close>.\<close>

definition handle_connect :: "builtins \<Rightarrow> string \<Rightarrow> napd_dashboard \<Rightarrow> napd_dashboard \<times> effect list" where
  "handle_connect B sid dash =
     (dash\<lparr>connected_clients := insert sid (connected_clients dash)\<rparr>,
      [Emit sid ''data_update'' (to_dict B (data dash))])"

definition handle_disconnect :: "string \<Rightarrow> napd_dashboard \<Rightarrow> napd_dashboard \<times> effect list" where
  "handle_disconnect sid dash =
     (dash\<lparr>connected_clients := connected_clients dash - {sid}\<rparr>, [])"

definition handle_data_request :: "builtins \<Rightarrow> string \<Rightarrow> napd_dashboard \<Rightarrow> napd_dashboard \<times> effect list" where
  "handle_data_request B sid dash = (dash, [Emit sid ''data_update'' (to_dict B (data dash))])"

definition broadcast_update :: "builtins \<Rightarrow> napd_dashboard \<Rightarrow> effect list" where
  "broadcast_update B dash =
     (if connected_clients dash \<noteq> {} then [Broadcast ''data_update'' (to_dict B (data dash))]
      else [])"

text \<open>
  \<open>update_data(**kwargs)\<close>: an exception of \<open>update_from_dict\<close> is caught and logged,
  and the object stays as the raise left it.
\<close>

definition update_data ::
  "builtins \<Rightarrow> nat \<Rightarrow> (string \<times> pyval) list \<Rightarrow> napd_dashboard \<Rightarrow> napd_dashboard \<times> effect list" where
  "update_data B now kwargs dash =
     (if kwargs = [] then (dash, [])
      else case update_from_dict B now kwargs (data dash) of
             Inl (e, d) \<Rightarrow> (dash\<lparr>data := d\<rparr>, [])
           | Inr (d, changed) \<Rightarrow>
               (dash\<lparr>data := d\<rparr>,
                if changed then broadcast_update B (dash\<lparr>data := d\<rparr>) else []))"

text \<open>One pass of the loop of \<open>_background_updates\<close>, at time \<open>now\<close>.\<close>

definition background_update :: "builtins \<Rightarrow> nat \<Rightarrow> napd_dashboard \<Rightarrow> napd_dashboard \<times> effect list" where
  "background_update B now dash =
     (dash\<lparr>data := (data dash)\<lparr>timestamp := now\<rparr>\<rparr>,
      if connected_clients dash \<noteq> {}
      then [Broadcast ''heartbeat'' (PDict [(''timestamp'', PStr (isoformat B now))])]
      else [])"

record dashboard_interface =
  dashboard :: napd_dashboard
  selected_pump :: int

definition on_dashboard ::
  "(napd_dashboard \<Rightarrow> napd_dashboard \<times> effect list) \<Rightarrow> dashboard_interface \<Rightarrow>
   dashboard_interface \<times> effect list" where
  "on_dashboard f di = (case f (dashboard di) of (dash, out) \<Rightarrow> (di\<lparr>dashboard := dash\<rparr>, out))"

definition set_faults ::
  "builtins \<Rightarrow> nat \<Rightarrow> bool \<Rightarrow> bool \<Rightarrow> dashboard_interface \<Rightarrow> dashboard_interface \<times> effect list" where
  "set_faults B now hh ll di =
     on_dashboard
       (update_data B now
          [(''faults'', PDict [(''hh_pressure'', PBool hh), (''ll_tank_level'', PBool ll)])]) di"

definition clear_faults ::
  "builtins \<Rightarrow> nat \<Rightarrow> dashboard_interface \<Rightarrow> dashboard_interface \<times> effect list" where
  "clear_faults B now di = set_faults B now False False di"

text \<open>
  The dict that an \<open>update_..._data\<close> method builds: the arguments that are not None,
  under their keys.
\<close>

definition build_dict :: "(string \<times> pyval) list \<Rightarrow> (string \<times> pyval) list" where
  "build_dict args = filter (\<lambda>(k, v). v \<noteq> PNone) args"

text \<open>
  \<open>update_pump_data\<close>, \<open>update_pump2_data\<close>, \<open>update_solar_data\<close>,
  \<open>update_tank_data\<close>, \<open>update_skid_data\<close>: section \<open>name\<close> with the given
  keyword arguments; nothing is sent when all are None.
\<close>

definition update_section_data ::
  "builtins \<Rightarrow> nat \<Rightarrow> string \<Rightarrow> (string \<times> pyval) list \<Rightarrow> dashboard_interface \<Rightarrow>
   dashboard_interface \<times> effect list" where
  "update_section_data B now name args di =
     (let section_data = build_dict args in
      if section_data \<noteq> [] then on_dashboard (update_data B now [(name, PDict section_data)]) di
      else (di, []))"

definition update_pump_data ::
  "builtins \<Rightarrow> nat \<Rightarrow> pyval \<Rightarrow> pyval \<Rightarrow> pyval \<Rightarrow> dashboard_interface \<Rightarrow>
   dashboard_interface \<times> effect list" where
  "update_pump_data B now tr fr ps =
     update_section_data B now ''pump''
       [(''target_rate'', tr), (''flow_rate'', fr), (''pump_state'', ps)]"

definition update_pump2_data ::
  "builtins \<Rightarrow> nat \<Rightarrow> pyval \<Rightarrow> pyval \<Rightarrow> pyval \<Rightarrow> dashboard_interface \<Rightarrow>
   dashboard_interface \<times> effect list" where
  "update_pump2_data B now tr fr ps =
     update_section_data B now ''pump2''
       [(''target_rate'', tr), (''flow_rate'', fr), (''pump_state'', ps)]"

definition update_solar_data ::
  "builtins \<Rightarrow> nat \<Rightarrow> pyval \<Rightarrow> pyval \<Rightarrow> pyval \<Rightarrow> pyval \<Rightarrow> dashboard_interface \<Rightarrow>
   dashboard_interface \<times> effect list" where
  "update_solar_data B now bv bp array_voltage bah =
     update_section_data B now ''solar''
       [(''battery_voltage'', bv), (''battery_percentage'', bp),
        (''panel_power'', array_voltage), (''battery_ah'', bah)]"

definition update_tank_data ::
  "builtins \<Rightarrow> nat \<Rightarrow> pyval \<Rightarrow> pyval \<Rightarrow> dashboard_interface \<Rightarrow>
   dashboard_interface \<times> effect list" where
  "update_tank_data B now mm pc =
     update_section_data B now ''tank'' [(''tank_level_mm'', mm), (''tank_level_percent'', pc)]"

definition update_skid_data ::
  "builtins \<Rightarrow> nat \<Rightarrow> pyval \<Rightarrow> pyval \<Rightarrow> dashboard_interface \<Rightarrow>
   dashboard_interface \<times> effect list" where
  "update_skid_data B now fl pr =
     update_section_data B now ''skid'' [(''skid_flow'', fl), (''skid_pressure'', pr)]"

text \<open>
  \<open>handle_pump_state_change\<close>, with a dict as payload: the state is stored as a
  string, the timestamp is set and the snapshot is sent to all clients.
\<close>

definition handle_pump_state_change ::
  "builtins \<Rightarrow> nat \<Rightarrow> (string \<times> pyval) list \<Rightarrow> napd_dashboard \<Rightarrow> napd_dashboard \<times> effect list" where
  "handle_pump_state_change B t payload dash =
     (case map_of payload ''state'' of
        None \<Rightarrow> (dash, [])
      | Some v \<Rightarrow>
          (let dash' = dash\<lparr>data := (data dash)\<lparr>str := (str (data dash))(pump_state := py_str B v),
                                                 timestamp := t\<rparr>\<rparr>
           in (dash', broadcast_update B dash')))"

text \<open>\<open>handle_toggle_selected_pump\<close>: an acknowledgement to the client, nothing else.\<close>

definition handle_toggle_selected_pump :: "string \<Rightarrow> effect list" where
  "handle_toggle_selected_pump sid =
     [Emit sid ''pump_selection_toggled''
        (PDict [(''message'', PStr ''Pump selection toggle requested'')])]"

definition selection_event :: "builtins \<Rightarrow> nat \<Rightarrow> int \<Rightarrow> effect" where
  "selection_event B now n =
     Broadcast ''pump_selection_changed''
       (PDict [(''selected_pump'', PInt n), (''timestamp'', PStr (isoformat B now))])"

definition toggleSelectedPump ::
  "builtins \<Rightarrow> nat \<Rightarrow> dashboard_interface \<Rightarrow> dashboard_interface \<times> effect list" where
  "toggleSelectedPump B now di =
     (let di' = di\<lparr>selected_pump := (if selected_pump di = 1 then 2 else 1)\<rparr>
      in (di', [selection_event B now (selected_pump di')]))"

definition getSelectedPump :: "dashboard_interface \<Rightarrow> int" where
  "getSelectedPump di = selected_pump di"

text \<open>
  \<open>handle_pump_selection_request\<close>: the dashboard of a \<open>DashboardInterface\<close> always
  has its interface, so the reply carries the current selection.
\<close>

definition handle_pump_selection_request ::
  "builtins \<Rightarrow> nat \<Rightarrow> string \<Rightarrow> dashboard_interface \<Rightarrow> dashboard_interface \<times> effect list" where
  "handle_pump_selection_request B t sid di =
     (di, [Emit sid ''pump_selection_changed''
             (PDict [(''selected_pump'', PInt (getSelectedPump di)),
                     (''timestamp'', PStr (isoformat B t))])])"

definition setSelectedPump ::
  "builtins \<Rightarrow> nat \<Rightarrow> int \<Rightarrow> dashboard_interface \<Rightarrow> dashboard_interface \<times> effect list" where
  "setSelectedPump B now pump_number di =
     (if pump_number = 1 \<or> pump_number = 2
      then (di\<lparr>selected_pump := pump_number\<rparr>, [selection_event B now pump_number])
      else (di, []))"

section \<open>NapdLocalControlApplication (application.py)\<close>

text \<open>The part of the configuration that the modelled methods read.\<close>

record config =
  pump_1 :: string
  pump_2 :: string
  pump_1_start_LED_pin :: int
  pump_1_fault_LED_pin :: int
  pump_2_start_LED_pin :: int
  pump_2_fault_LED_pin :: int

text \<open>
  The attributes of the application object. \<open>last_ai_input\<close> is a reading of the analog
  input, or None.
\<close>

record app =
  iface :: dashboard_interface
  start_first_callback :: bool
  hh_pressure_active :: bool
  ll_tank_level_active :: bool
  last_ai_input :: "rat option"

text \<open>
  \<open>__init__\<close> and \<open>setup\<close>, at time \<open>now\<close>, with \<open>ai0\<close> the first reading of the
  potentiometer input.
\<close>

definition init_app :: "nat \<Rightarrow> rat option \<Rightarrow> app" where
  "init_app now ai0 =
     \<lparr> iface = \<lparr> dashboard = \<lparr> data = init_data now, connected_clients = {} \<rparr>,
                 selected_pump = 1 \<rparr>,
       start_first_callback = False,
       hh_pressure_active = False,
       ll_tank_level_active = False,
       last_ai_input = ai0 \<rparr>"

definition on_iface ::
  "(dashboard_interface \<Rightarrow> dashboard_interface \<times> effect list) \<Rightarrow> app \<Rightarrow> app \<times> effect list" where
  "on_iface f s = (case f (iface s) of (di, out) \<Rightarrow> (s\<lparr>iface := di\<rparr>, out))"

text \<open>
  \<open>check_faults\<close>, with the two values read from the \<open>AppState\<close> tags of pump 1 and
  pump 2 (None when a tag is absent).
\<close>

definition check_faults :: "builtins \<Rightarrow> nat \<Rightarrow> pyval \<Rightarrow> pyval \<Rightarrow> app \<Rightarrow> app \<times> effect list" where
  "check_faults B now p1_app_state p2_app_state s =
     (let s = (if p1_app_state = PStr ''pressure_high_high_level''
                  \<or> p2_app_state = PStr ''pressure_high_high_level''
               then s\<lparr>hh_pressure_active := True\<rparr>
               else if p1_app_state = PStr ''tank_level_low_low_level''
                  \<or> p2_app_state = PStr ''tank_level_low_low_level''
               then s\<lparr>ll_tank_level_active := True\<rparr>
               else s)
      in on_iface (set_faults B now (hh_pressure_active s) (ll_tank_level_active s)) s)"

text \<open>Truth value of a Python value (\<open>not x\<close>, \<open>if x\<close>).\<close>

definition truthy :: "pyval \<Rightarrow> bool" where
  "truthy v =
     (case v of
        PNone \<Rightarrow> False
      | PBool b \<Rightarrow> b
      | PInt n \<Rightarrow> n \<noteq> 0
      | PFloat f \<Rightarrow> f \<noteq> Finite 0
      | PStr s \<Rightarrow> s \<noteq> []
      | PList xs \<Rightarrow> xs \<noteq> []
      | PDict kvs \<Rightarrow> kvs \<noteq> [])"

text \<open>
  The start LED of one pump in \<open>update_pump_leds\<close>: on when the pump is pumping and the
  LED is off, off when it is in standby and the LED is on.
\<close>

definition start_led :: "int \<Rightarrow> pyval \<Rightarrow> pyval \<Rightarrow> effect list" where
  "start_led pin state_string led_state =
     (if state_string = PStr ''pumping'' then (if \<not> truthy led_state then [SetDO pin True] else [])
      else if state_string = PStr ''standby'' then (if truthy led_state then [SetDO pin False] else [])
      else [])"

text \<open>
  \<open>update_pump_leds\<close>, with the values read from the \<open>StateString\<close> tags, the two
  start LED outputs and the two fault LED outputs (numbers, or None).
\<close>

definition update_pump_leds ::
  "config \<Rightarrow> pyval \<Rightarrow> pyval \<Rightarrow> pyval \<Rightarrow> pyval \<Rightarrow> rat option \<Rightarrow> rat option \<Rightarrow> app \<Rightarrow> effect list" where
  "update_pump_leds cfg p1_state_string p2_state_string p1_led_state p2_led_state
     p1_fault_led_state p2_fault_led_state s =
     (case (p1_fault_led_state, p2_fault_led_state) of
        (Some f1, Some f2) \<Rightarrow>
          (if hh_pressure_active s \<or> ll_tank_level_active s
           then (if f1 < 1 / 10 \<or> f2 < 1 / 10
                 then [SetAO (pump_1_fault_LED_pin cfg) 100, SetAO (pump_2_fault_LED_pin cfg) 100]
                 else [])
           else if f1 > 0 \<or> f2 > 0
           then [SetAO (pump_1_fault_LED_pin cfg) 0, SetAO (pump_2_fault_LED_pin cfg) 0]
           else [])
      | _ \<Rightarrow> [])
     @ start_led (pump_1_start_LED_pin cfg) p1_state_string p1_led_state
     @ start_led (pump_2_start_LED_pin cfg) p2_state_string p2_led_state"

text \<open>
  \<open>round(x, 2)\<close>: to the nearest multiple of 0.01, a tie to the even one.
\<close>

definition round_half_even :: "rat \<Rightarrow> int" where
  "round_half_even x =
     (let f = \<lfloor>x\<rfloor>; d = x - of_int f in
      if d < 1 / 2 then f
      else if d > 1 / 2 then f + 1
      else if even f then f else f + 1)"

definition round2 :: "rat \<Rightarrow> rat" where
  "round2 x = of_int (round_half_even (x * 100)) / 100"

text \<open>
  The test \<open>ai_input is not None and self.last_ai_input * 0.99 < ai_input <
  self.last_ai_input * 1.01\<close>: with a reading and no stored reading, the product
  \<open>None * 0.99\<close> raises TypeError.
\<close>

definition near_last :: "rat option \<Rightarrow> rat option \<Rightarrow> py_error + bool" where
  "near_last last_ai ai_input =
     (case ai_input of
        None \<Rightarrow> Inr False
      | Some a \<Rightarrow>
          (case last_ai of
             None \<Rightarrow> Inl TypeError
           | Some l \<Rightarrow> Inr (l * (99 / 100) < a \<and> a < l * (101 / 100))))"

text \<open>
  \<open>update_target_rate\<close>, with \<open>ai_input\<close> the value that \<open>get_pot_reading\<close>
  returned (a number or None) and \<open>sys_voltage\<close> the value of the \<open>voltage\<close> tag
  (a number or None). A raise leaves the object unchanged.
\<close>

definition update_target_rate ::
  "config \<Rightarrow> rat option \<Rightarrow> rat option \<Rightarrow> app \<Rightarrow> py_error + (app \<times> effect list)" where
  "update_target_rate cfg ai_input sys_voltage s =
     (let pump_number = getSelectedPump (iface s) in
      case near_last (last_ai_input s) ai_input of
        Inl e \<Rightarrow> Inl e
      | Inr True \<Rightarrow> Inr (s, [])
      | Inr False \<Rightarrow>
          (let sys_voltage = (case sys_voltage of
                                None \<Rightarrow> 25
                              | Some v \<Rightarrow> if v = 0 then 25 else v) in
           case ai_input of
             None \<Rightarrow> Inl TypeError
           | Some a \<Rightarrow>
               (let target_rate = round2 (a / sys_voltage * 100) in
                Inr (s\<lparr>last_ai_input := Some a\<rparr>,
                     if pump_number = 1
                     then [SetTag ''TargetRatePercentage'' (PFloat (Finite target_rate)) (pump_1 cfg)]
                     else if pump_number = 2
                     then [SetTag ''TargetRatePercentage'' (PFloat (Finite target_rate)) (pump_2 cfg)]
                     else []))))"

definition update_pump_state_tag :: "config \<Rightarrow> int \<Rightarrow> int \<Rightarrow> effect list" where
  "update_pump_state_tag cfg pump_number state =
     (if pump_number = 1 then [SetTag ''StateWrite'' (PInt state) (pump_1 cfg)]
      else if pump_number = 2 then [SetTag ''StateWrite'' (PInt state) (pump_2 cfg)]
      else [])"

definition selector_button_callback :: "builtins \<Rightarrow> nat \<Rightarrow> app \<Rightarrow> app \<times> effect list" where
  "selector_button_callback B now s =
     (if hh_pressure_active s \<or> ll_tank_level_active s
      then on_iface (clear_faults B now)
             (s\<lparr>hh_pressure_active := False, ll_tank_level_active := False\<rparr>)
      else on_iface (toggleSelectedPump B now) s)"

definition start_pump_callback :: "config \<Rightarrow> app \<Rightarrow> app \<times> effect list" where
  "start_pump_callback cfg s =
     (if \<not> start_first_callback s then (s\<lparr>start_first_callback := True\<rparr>, [])
      else (s, update_pump_state_tag cfg (getSelectedPump (iface s)) 2))"

definition stop_pump_callback :: "config \<Rightarrow> app \<Rightarrow> app \<times> effect list" where
  "stop_pump_callback cfg s = (s, update_pump_state_tag cfg (getSelectedPump (iface s)) 0)"

text \<open>
  The four tags read from one solar controller (numbers, or None when the tag is
  absent).
\<close>

record solar_tags =
  b_voltage :: "rat option"
  b_percent :: "rat option"
  panel_voltage :: "rat option"
  remaining_ah :: "rat option"

text \<open>
  The aggregation of the solar readings in \<open>update_dashboard_data\<close> (the body of
  \<open>if self.config.solar_controllers:\<close>): battery voltage, battery percentage, panel
  voltage and battery amp-hours.
\<close>

definition solar_aggregate :: "solar_tags list \<Rightarrow> rat \<times> rat \<times> rat \<times> rat" where
  "solar_aggregate elements =
     (let battery_voltages = List.map_filter b_voltage elements;
          battery_percentages = List.map_filter b_percent elements;
          panel_voltage_values = List.map_filter panel_voltage elements;
          battery_ah_values = List.map_filter remaining_ah elements;
          battery_voltage_v =
            (if battery_voltages \<noteq> []
             then sum_list battery_voltages / of_nat (length battery_voltages) else 0);
          battery_percentage_v =
            (if battery_percentages \<noteq> []
             then sum_list battery_percentages / of_nat (length battery_percentages) else 0);
          panel_voltage_v =
            (if panel_voltage_values \<noteq> []
             then (let m = sum_list panel_voltage_values / of_nat (length panel_voltage_values)
                   in if m < 0 then 0 else m)
             else 0);
          battery_ah_v = (if battery_ah_values \<noteq> [] then sum_list battery_ah_values else 0)
      in (battery_voltage_v, battery_percentage_v, panel_voltage_v, battery_ah_v))"

text \<open>
  What one tick reads: the time, the tags of the pumps, the filtered potentiometer
  reading, the platform voltage, the solar controllers (\<open>solar_config_truthy\<close> is the
  truth value of the configuration object \<open>self.config.solar_controllers\<close>, whose class
  is not part of this repository), the tank, flow and pressure applications, and the
  LED outputs.
\<close>

record tick_inputs =
  now :: nat
  p1_app_state :: pyval
  p2_app_state :: pyval
  ai_input :: "rat option"
  sys_voltage :: "rat option"
  p1_target_rate :: pyval
  p1_flow_rate :: pyval
  p1_state_string :: pyval
  p2_target_rate :: pyval
  p2_flow_rate :: pyval
  p2_state_string :: pyval
  solar_config_truthy :: bool
  solar_elements :: "solar_tags list"
  tank_level_app_set :: bool
  level_reading :: "rat option"
  level_filled_percentage :: pyval
  flow_value :: pyval
  pressure_value :: pyval
  p1_led_state :: pyval
  p2_led_state :: pyval
  p1_fault_led_state :: "rat option"
  p2_fault_led_state :: "rat option"

definition num_val :: "rat \<Rightarrow> pyval" where
  "num_val x = PFloat (Finite x)"

text \<open>
  The solar step of \<open>update_dashboard_data\<close>: when the configuration object is falsy
  the four aggregate variables are never assigned and reading them raises
  UnboundLocalError.
\<close>

definition update_solar ::
  "builtins \<Rightarrow> tick_inputs \<Rightarrow> app \<Rightarrow> (py_error \<times> app \<times> effect list) + (app \<times> effect list)" where
  "update_solar B inp s =
     (if solar_config_truthy inp
      then (case solar_aggregate (solar_elements inp) of
              (bv, bp, pv, bah) \<Rightarrow>
                Inr (on_iface (update_solar_data B (now inp)
                       (num_val bv) (num_val bp) (num_val pv) (num_val bah)) s))
      else Inl (UnboundLocalError, s, []))"

definition update_tank :: "builtins \<Rightarrow> tick_inputs \<Rightarrow> app \<Rightarrow> app \<times> effect list" where
  "update_tank B inp s =
     (let tank_level_m = (if tank_level_app_set inp then level_reading inp else None);
          tank_level_mm_v = (case tank_level_m of None \<Rightarrow> PNone | Some m \<Rightarrow> num_val (m * 1000));
          tank_level_percent_v =
            (if tank_level_app_set inp then level_filled_percentage inp else PNone)
      in on_iface (update_tank_data B (now inp) tank_level_mm_v tank_level_percent_v) s)"

text \<open>\<open>update_dashboard_data\<close>.\<close>

definition update_dashboard_data ::
  "builtins \<Rightarrow> tick_inputs \<Rightarrow> app \<Rightarrow> (py_error \<times> app \<times> effect list) + (app \<times> effect list)" where
  "update_dashboard_data B inp s =
     (case on_iface (update_pump_data B (now inp)
                       (p1_target_rate inp) (p1_flow_rate inp) (p1_state_string inp)) s of
        (s1, o1) \<Rightarrow>
     (case on_iface (update_pump2_data B (now inp)
                       (p2_target_rate inp) (p2_flow_rate inp) (p2_state_string inp)) s1 of
        (s2, o2) \<Rightarrow>
     (case update_solar B inp s2 of
        Inl (e, s3, o3) \<Rightarrow> Inl (e, s3, o1 @ o2 @ o3)
      | Inr (s3, o3) \<Rightarrow>
     (case update_tank B inp s3 of
        (s4, o4) \<Rightarrow>
     (case on_iface (update_skid_data B (now inp) (flow_value inp) (pressure_value inp)) s4 of
        (s5, o5) \<Rightarrow> Inr (s5, o1 @ o2 @ o3 @ o4 @ o5))))))"

text \<open>
  \<open>main_loop\<close>: the four steps in order. A step that raises ends the tick: the
  result is the exception, the object as it was left and what had been sent.
\<close>

definition main_loop ::
  "builtins \<Rightarrow> config \<Rightarrow> tick_inputs \<Rightarrow> app \<Rightarrow>
   (py_error \<times> app \<times> effect list) + (app \<times> effect list)" where
  "main_loop B cfg inp s =
     (case check_faults B (now inp) (p1_app_state inp) (p2_app_state inp) s of
        (s1, o1) \<Rightarrow>
     (case update_target_rate cfg (ai_input inp) (sys_voltage inp) s1 of
        Inl e \<Rightarrow> Inl (e, s1, o1)
      | Inr (s2, o2) \<Rightarrow>
     (case update_dashboard_data B inp s2 of
        Inl (e, s3, o3) \<Rightarrow> Inl (e, s3, o1 @ o2 @ o3)
      | Inr (s3, o3) \<Rightarrow>
          Inr (s3, o1 @ o2 @ o3 @
                   update_pump_leds cfg (p1_state_string inp) (p2_state_string inp)
                     (p1_led_state inp) (p2_led_state inp)
                     (p1_fault_led_state inp) (p2_fault_led_state inp) s3))))"

section \<open>Runs of the program\<close>

text \<open>
  What happens to the application after start: a tick of the control loop, an edge on
  one of the three pulse inputs, a client connecting, leaving or sending one of its
  four messages, and a pass of the background thread. A tick that raises leaves the
  object as the raise left it.
\<close>

datatype event =
    Tick tick_inputs
  | SelectorEdge nat
  | StartEdge
  | StopEdge
  | Connect string
  | Disconnect string
  | RequestData string
  | RequestPumpSelection nat string
  | SetPumpState nat "(string \<times> pyval) list"
  | ToggleRequest string
  | Background nat

fun step :: "builtins \<Rightarrow> config \<Rightarrow> event \<Rightarrow> app \<Rightarrow> app \<times> effect list" where
  "step B cfg (Tick inp) s =
     (case main_loop B cfg inp s of Inl (e, s', out) \<Rightarrow> (s', out) | Inr (s', out) \<Rightarrow> (s', out))"
| "step B cfg (SelectorEdge t) s = selector_button_callback B t s"
| "step B cfg StartEdge s = start_pump_callback cfg s"
| "step B cfg StopEdge s = stop_pump_callback cfg s"
| "step B cfg (Connect sid) s = on_iface (on_dashboard (handle_connect B sid)) s"
| "step B cfg (Disconnect sid) s = on_iface (on_dashboard (handle_disconnect sid)) s"
| "step B cfg (RequestData sid) s = on_iface (on_dashboard (handle_data_request B sid)) s"
| "step B cfg (RequestPumpSelection t sid) s = on_iface (handle_pump_selection_request B t sid) s"
| "step B cfg (SetPumpState t payload) s =
     on_iface (on_dashboard (handle_pump_state_change B t payload)) s"
| "step B cfg (ToggleRequest sid) s = (s, handle_toggle_selected_pump sid)"
| "step B cfg (Background t) s = on_iface (on_dashboard (background_update B t)) s"

fun run :: "builtins \<Rightarrow> config \<Rightarrow> event list \<Rightarrow> app \<Rightarrow> app" where
  "run B cfg [] s = s"
| "run B cfg (e # es) s = run B cfg es (fst (step B cfg e s))"

text \<open>A sequence of fault checks, each with the two status values it reads.\<close>

fun check_faults_seq :: "builtins \<Rightarrow> (nat \<times> pyval \<times> pyval) list \<Rightarrow> app \<Rightarrow> app" where
  "check_faults_seq B [] s = s"
| "check_faults_seq B ((t, p1, p2) # obs) s = check_faults_seq B obs (fst (check_faults B t p1 p2 s))"

section \<open>Notions of the specification\<close>

text \<open>
  A stand-in for the builtins, for evaluating the model on inputs where no string is
  converted to a float and no value other than a string is converted to a string.
\<close>

definition example_builtins :: builtins where
  "example_builtins = \<lparr> float_of_str = (\<lambda>_. None), str_of = (\<lambda>_. []), isoformat = (\<lambda>_. []) \<rparr>"

definition example_config :: config where
  "example_config =
     \<lparr> pump_1 = ''pump_1_app'', pump_2 = ''pump_2_app'',
       pump_1_start_LED_pin = 0, pump_1_fault_LED_pin = 0,
       pump_2_start_LED_pin = 1, pump_2_fault_LED_pin = 1 \<rparr>"











text \<open>Some field of the snapshot, the timestamp apart, differs between two objects.\<close>

definition fields_differ :: "dashboard_data \<Rightarrow> dashboard_data \<Rightarrow> bool" where
  "fields_differ d d' =
     ((\<exists>a. num d' a \<noteq> num d a) \<or> (\<exists>a. str d' a \<noteq> str d a) \<or> (\<exists>k. faults d' k \<noteq> faults d k))"



text \<open>The tag writes among what was sent.\<close>

definition tag_writes :: "effect list \<Rightarrow> effect list" where
  "tag_writes out = filter (\<lambda>e. case e of SetTag _ _ _ \<Rightarrow> True | _ \<Rightarrow> False) out"

text \<open>The pump application that a selection names.\<close>

definition selected_app :: "config \<Rightarrow> app \<Rightarrow> string" where
  "selected_app cfg s = (if selected_pump (iface s) = 1 then pump_1 cfg else pump_2 cfg)"

text \<open>
  Two application objects agree on the control state: the two fault flags, the guard of
  the start input and the selection.
\<close>

definition same_control :: "app \<Rightarrow> app \<Rightarrow> bool" where
  "same_control s s' =
     (hh_pressure_active s' = hh_pressure_active s \<and>
      ll_tank_level_active s' = ll_tank_level_active s \<and>
      start_first_callback s' = start_first_callback s \<and>
      selected_pump (iface s') = selected_pump (iface s))"




section \<open>The control state under the steps of the program\<close>

lemma on_iface_flags [simp]:
  "hh_pressure_active (fst (on_iface f s)) = hh_pressure_active s"
  "ll_tank_level_active (fst (on_iface f s)) = ll_tank_level_active s"
  "start_first_callback (fst (on_iface f s)) = start_first_callback s"
  "last_ai_input (fst (on_iface f s)) = last_ai_input s"
  "iface (fst (on_iface f s)) = fst (f (iface s))"
  "snd (on_iface f s) = snd (f (iface s))"
  by (simp_all add: on_iface_def split: prod.splits)

lemma on_dashboard_sel [simp]:
  "selected_pump (fst (on_dashboard f di)) = selected_pump di"
  "dashboard (fst (on_dashboard f di)) = fst (f (dashboard di))"
  "snd (on_dashboard f di) = snd (f (dashboard di))"
  by (simp_all add: on_dashboard_def split: prod.splits)

lemma set_faults_sel [simp]: "selected_pump (fst (set_faults B t h l di)) = selected_pump di"
  by (simp add: set_faults_def)

lemma update_section_data_sel [simp]:
  "selected_pump (fst (update_section_data B t n args di)) = selected_pump di"
  by (simp add: update_section_data_def Let_def)

lemma same_control_refl [simp]: "same_control s s"
  by (simp add: same_control_def)

lemma same_control_trans: "same_control s s' \<Longrightarrow> same_control s' s'' \<Longrightarrow> same_control s s''"
  by (simp add: same_control_def)

lemma same_control_on_section [simp]:
  "same_control s (fst (on_iface (update_section_data B t n args) s))"
  by (simp add: same_control_def)

lemma update_target_rate_control:
  "update_target_rate cfg ai sv s = Inr (s', out) \<Longrightarrow> same_control s s'"
  by (auto simp add: update_target_rate_def same_control_def Let_def
      split: sum.splits bool.splits option.splits if_splits)

lemma update_solar_control:
  "update_solar B inp s = Inr (s', out) \<Longrightarrow> same_control s s'"
  "update_solar B inp s = Inl (e, s', out) \<Longrightarrow> same_control s s'"
proof -
  assume "update_solar B inp s = Inr (s', out)"
  then have "s' = fst (on_iface (update_solar_data B (now inp)
       (num_val (fst (solar_aggregate (solar_elements inp))))
       (num_val (fst (snd (solar_aggregate (solar_elements inp)))))
       (num_val (fst (snd (snd (solar_aggregate (solar_elements inp))))))
       (num_val (snd (snd (snd (solar_aggregate (solar_elements inp))))))) s)"
    by (auto simp add: update_solar_def split: if_splits prod.splits)
  then show "same_control s s'"
    by (simp add: update_solar_data_def)
next
  assume "update_solar B inp s = Inl (e, s', out)"
  then show "same_control s s'"
    by (auto simp add: update_solar_def split: if_splits prod.splits)
qed

lemma update_tank_control: "same_control s (fst (update_tank B inp s))"
  by (simp add: update_tank_def update_tank_data_def Let_def)

lemma update_dashboard_data_control:
  assumes "update_dashboard_data B inp s = Inr (s', out) \<or> update_dashboard_data B inp s = Inl (e, s', out)"
  shows "same_control s s'"
proof -
  define s1 where "s1 = fst (on_iface (update_pump_data B (now inp)
                       (p1_target_rate inp) (p1_flow_rate inp) (p1_state_string inp)) s)"
  define s2 where "s2 = fst (on_iface (update_pump2_data B (now inp)
                       (p2_target_rate inp) (p2_flow_rate inp) (p2_state_string inp)) s1)"
  have c1: "same_control s s1" by (simp add: s1_def update_pump_data_def)
  have c2: "same_control s1 s2" by (simp add: s2_def update_pump2_data_def)
  have c12: "same_control s s2" using c1 c2 by (rule same_control_trans)
  show ?thesis
  proof (cases "update_solar B inp s2")
    case (Inl x)
    then obtain e3 s3 o3 where x: "update_solar B inp s2 = Inl (e3, s3, o3)" by (cases x) auto
    with assms have "s' = s3"
      by (auto simp add: update_dashboard_data_def s1_def s2_def split: prod.splits)
    with update_solar_control(2)[OF x] c12 show ?thesis by (auto intro: same_control_trans)
  next
    case (Inr y)
    then obtain s3 o3 where y: "update_solar B inp s2 = Inr (s3, o3)" by (cases y) auto
    define s4 where "s4 = fst (update_tank B inp s3)"
    have c3: "same_control s2 s3" using update_solar_control(1)[OF y] .
    have c4: "same_control s3 s4" by (simp add: s4_def update_tank_control)
    from assms y have "s' = fst (on_iface (update_skid_data B (now inp) (flow_value inp) (pressure_value inp)) s4)"
      by (auto simp add: update_dashboard_data_def s1_def s2_def s4_def split: prod.splits)
    then have c5: "same_control s4 s'" by (simp add: update_skid_data_def)
    show ?thesis using c12 c3 c4 c5 by (blast intro: same_control_trans)
  qed
qed

lemma check_faults_control:
  "start_first_callback (fst (check_faults B t p1 p2 s)) = start_first_callback s"
  "selected_pump (iface (fst (check_faults B t p1 p2 s))) = selected_pump (iface s)"
  "hh_pressure_active s \<Longrightarrow> hh_pressure_active (fst (check_faults B t p1 p2 s))"
  "ll_tank_level_active s \<Longrightarrow> ll_tank_level_active (fst (check_faults B t p1 p2 s))"
  by (simp_all add: check_faults_def Let_def)

lemma main_loop_state:
  "\<exists>s''. same_control (fst (check_faults B (now inp) (p1_app_state inp) (p2_app_state inp) s)) s''
       \<and> fst (step B cfg (Tick inp) s) = s''"
proof -
  define s1 where "s1 = fst (check_faults B (now inp) (p1_app_state inp) (p2_app_state inp) s)"
  define o1 where "o1 = snd (check_faults B (now inp) (p1_app_state inp) (p2_app_state inp) s)"
  have cf: "check_faults B (now inp) (p1_app_state inp) (p2_app_state inp) s = (s1, o1)"
    by (simp add: s1_def o1_def)
  show ?thesis
  proof (cases "update_target_rate cfg (ai_input inp) (sys_voltage inp) s1")
    case (Inl e)
    then show ?thesis by (simp add: main_loop_def cf s1_def[symmetric])
  next
    case (Inr y)
    then obtain s2 o2 where y: "update_target_rate cfg (ai_input inp) (sys_voltage inp) s1 = Inr (s2, o2)"
      by (cases y) auto
    have c2: "same_control s1 s2" using update_target_rate_control[OF y] .
    show ?thesis
    proof (cases "update_dashboard_data B inp s2")
      case (Inl x)
      then obtain e3 s3 o3 where x: "update_dashboard_data B inp s2 = Inl (e3, s3, o3)"
        by (cases x) auto
      have "same_control s2 s3" using update_dashboard_data_control[of B inp s2 s3 o3 e3] x by simp
      with c2 have "same_control s1 s3" by (rule same_control_trans)
      then show ?thesis by (simp add: main_loop_def cf y x s1_def[symmetric])
    next
      case (Inr z)
      then obtain s3 o3 where z: "update_dashboard_data B inp s2 = Inr (s3, o3)"
        by (cases z) auto
      have "same_control s2 s3" using update_dashboard_data_control[of B inp s2 s3 o3] z by simp
      with c2 have "same_control s1 s3" by (rule same_control_trans)
      then show ?thesis by (simp add: main_loop_def cf y z s1_def[symmetric])
    qed
  qed
qed

lemma step_tick_control:
  "start_first_callback (fst (step B cfg (Tick inp) s)) = start_first_callback s"
  "selected_pump (iface (fst (step B cfg (Tick inp) s))) = selected_pump (iface s)"
  "hh_pressure_active (fst (step B cfg (Tick inp) s)) =
     hh_pressure_active (fst (check_faults B (now inp) (p1_app_state inp) (p2_app_state inp) s))"
  "ll_tank_level_active (fst (step B cfg (Tick inp) s)) =
     ll_tank_level_active (fst (check_faults B (now inp) (p1_app_state inp) (p2_app_state inp) s))"
  using main_loop_state[of B inp s cfg] check_faults_control(1,2)[of B "now inp" "p1_app_state inp" "p2_app_state inp" s]
  by (auto simp add: same_control_def simp del: step.simps)


lemma step_selected:
  assumes "selected_pump (iface s) \<in> {1, 2}"
  shows "selected_pump (iface (fst (step B cfg e s))) \<in> {1, 2}"
proof (cases e)
  case (Tick inp)
  then show ?thesis using assms step_tick_control(2)[of B cfg inp s] by (simp del: step.simps)
next
  case (SelectorEdge t)
  then show ?thesis using assms
    by (simp add: selector_button_callback_def clear_faults_def toggleSelectedPump_def Let_def)
qed (use assms in \<open>simp_all add: start_pump_callback_def stop_pump_callback_def
    handle_pump_selection_request_def\<close>)

lemma step_first_callback:
  "start_first_callback (fst (step B cfg e s)) = (start_first_callback s \<or> e = StartEdge)"
proof (cases e)
  case (Tick inp)
  then show ?thesis using step_tick_control(1)[of B cfg inp s] by (simp del: step.simps)
next
  case (SelectorEdge t)
  then show ?thesis
    by (simp add: selector_button_callback_def clear_faults_def toggleSelectedPump_def Let_def)
qed (simp_all add: start_pump_callback_def stop_pump_callback_def handle_pump_selection_request_def)

lemma run_selected:
  "selected_pump (iface s) \<in> {1, 2} \<Longrightarrow> selected_pump (iface (run B cfg es s)) \<in> {1, 2}"
proof (induction es arbitrary: s)
  case Nil
  then show ?case by simp
next
  case (Cons e es)
  from Cons.prems have "selected_pump (iface (fst (step B cfg e s))) \<in> {1, 2}"
    by (rule step_selected)
  then show ?case using Cons.IH by simp
qed

lemma run_first_callback:
  "start_first_callback (run B cfg es s) = (start_first_callback s \<or> StartEdge \<in> set es)"
proof (induction es arbitrary: s)
  case Nil
  then show ?case by simp
next
  case (Cons e es)
  show ?case using Cons.IH[of "fst (step B cfg e s)"] step_first_callback[of B cfg e s]
    by auto
qed

lemma check_faults_seq_sticky:
  "(hh_pressure_active s \<longrightarrow> hh_pressure_active (check_faults_seq B obs s)) \<and>
   (ll_tank_level_active s \<longrightarrow> ll_tank_level_active (check_faults_seq B obs s))"
proof (induction obs arbitrary: s)
  case Nil
  then show ?case by simp
next
  case (Cons ob obs)
  obtain t p1 p2 where ob: "ob = (t, p1, p2)" by (cases ob) auto
  show ?case
    using Cons.IH[of "fst (check_faults B t p1 p2 s)"] check_faults_control(3,4)[of s B t p1 p2]
    by (auto simp add: ob)
qed

lemma step_keeps_flags:
  assumes "\<forall>t. e \<noteq> SelectorEdge t"
  shows "(hh_pressure_active s \<longrightarrow> hh_pressure_active (fst (step B cfg e s))) \<and>
         (ll_tank_level_active s \<longrightarrow> ll_tank_level_active (fst (step B cfg e s)))"
proof (cases e)
  case (Tick inp)
  then show ?thesis
    using step_tick_control(3,4)[of B cfg inp s]
      check_faults_control(3,4)[of s B "now inp" "p1_app_state inp" "p2_app_state inp"]
    by (auto simp del: step.simps)
next
  case (SelectorEdge t)
  with assms show ?thesis by simp
qed (simp_all add: start_pump_callback_def stop_pump_callback_def handle_pump_selection_request_def)

text \<open>The fault entries of the snapshot after \<open>set_faults\<close>.\<close>

lemma then_fault_bool:
  "map_of fs key = Some (PBool b) \<Longrightarrow>
   then_fault fk fs key (Inr (d, c)) =
     (if faults d fk = b then Inr (d, c) else Inr (d\<lparr>faults := (faults d)(fk := b)\<rparr>, True))"
  by (simp add: then_fault_def to_bool_def Let_def)

lemma update_fields_faults_only:
  "\<exists>d' c. update_fields B [(''faults'', PDict [(''hh_pressure'', PBool h), (''ll_tank_level'', PBool l)])] d
       = Inr (d', c) \<and> faults d' hh_pressure = h \<and> faults d' ll_tank_level = l
         \<and> num d' = num d \<and> str d' = str d \<and> timestamp d' = timestamp d"
proof -
  let ?fs = "[(''hh_pressure'', PBool h), (''ll_tank_level'', PBool l)]"
  let ?kw = "[(''faults'', PDict ?fs)]"
  have a: "update_fields B ?kw d =
             then_fault ll_tank_level ?fs ''ll_tank_level''
               (then_fault hh_pressure ?fs ''hh_pressure'' (Inr (d, False)))"
    by (simp add: update_fields_def in_section_def sec_faults_def Let_def)
  have m1: "map_of ?fs ''hh_pressure'' = Some (PBool h)" by simp
  have m2: "map_of ?fs ''ll_tank_level'' = Some (PBool l)" by simp
  show ?thesis
  proof (cases "faults d hh_pressure = h")
    case True
    then show ?thesis
      unfolding a then_fault_bool[OF m1] by (cases "faults d ll_tank_level = l") (auto simp add: then_fault_bool[OF m2])
  next
    case False
    then show ?thesis
      unfolding a then_fault_bool[OF m1] by (cases "faults d ll_tank_level = l") (auto simp add: then_fault_bool[OF m2])
  qed
qed


lemma set_faults_data:
  "faults (data (dashboard (fst (set_faults B t h l di)))) hh_pressure = h \<and>
   faults (data (dashboard (fst (set_faults B t h l di)))) ll_tank_level = l"
proof -
  obtain d' c where u: "update_fields B
      [(''faults'', PDict [(''hh_pressure'', PBool h), (''ll_tank_level'', PBool l)])]
      (data (dashboard di)) = Inr (d', c)"
    and f: "faults d' hh_pressure = h" "faults d' ll_tank_level = l"
    using update_fields_faults_only[of B h l "data (dashboard di)"] by blast
  show ?thesis
    using f by (simp add: set_faults_def on_dashboard_def update_data_def update_from_dict_def u)
qed

section \<open>The claims\<close>

text \<open>
  C1. Fault flags are sticky. Over any sequence of fault checks a flag that is true
  stays true, whatever status values are read. A flag goes from true to false in one
  step of the program only when the step is an edge of the selector button, and then
  both flags are false after it.
\<close>

theorem C1_faults_sticky:
  "(hh_pressure_active s \<longrightarrow> hh_pressure_active (check_faults_seq B obs s))
   \<and> (ll_tank_level_active s \<longrightarrow> ll_tank_level_active (check_faults_seq B obs s))
   \<and> ((hh_pressure_active s \<and> \<not> hh_pressure_active (fst (step B cfg e s))) \<or>
       (ll_tank_level_active s \<and> \<not> ll_tank_level_active (fst (step B cfg e s)))
        \<longrightarrow> (\<exists>t. e = SelectorEdge t) \<and>
            \<not> hh_pressure_active (fst (step B cfg e s)) \<and>
            \<not> ll_tank_level_active (fst (step B cfg e s)))"
proof -
  have a: "(hh_pressure_active s \<longrightarrow> hh_pressure_active (check_faults_seq B obs s))
   \<and> (ll_tank_level_active s \<longrightarrow> ll_tank_level_active (check_faults_seq B obs s))"
    by (rule check_faults_seq_sticky)
  have b: "(\<exists>t. e = SelectorEdge t) \<and>
            \<not> hh_pressure_active (fst (step B cfg e s)) \<and>
            \<not> ll_tank_level_active (fst (step B cfg e s))"
    if h: "(hh_pressure_active s \<and> \<not> hh_pressure_active (fst (step B cfg e s))) \<or>
       (ll_tank_level_active s \<and> \<not> ll_tank_level_active (fst (step B cfg e s)))"
  proof -
    have "\<exists>t. e = SelectorEdge t" using step_keeps_flags[of e s B cfg] h by blast
    then obtain t where e: "e = SelectorEdge t" ..
    from h have "hh_pressure_active s \<or> ll_tank_level_active s" by blast
    then show ?thesis
      by (simp add: e selector_button_callback_def clear_faults_def)
  qed
  show ?thesis using a b by blast
qed

theorem C1_faults_sticky_witness:
  "hh_pressure_active
     (fst (check_faults example_builtins 1 (PStr ''pressure_high_high_level'') PNone (init_app 0 None)))
   \<and> hh_pressure_active
     (check_faults_seq example_builtins [(2, PNone, PStr ''standby'')]
        (fst (check_faults example_builtins 1 (PStr ''pressure_high_high_level'') PNone
                (init_app 0 None))))
   \<and> \<not> hh_pressure_active
     (fst (step example_builtins example_config (SelectorEdge 3)
        (fst (check_faults example_builtins 1 (PStr ''pressure_high_high_level'') PNone
                (init_app 0 None)))))
   \<and> \<not> ll_tank_level_active
     (fst (step example_builtins example_config (SelectorEdge 3)
        (fst (check_faults example_builtins 1 (PStr ''pressure_high_high_level'') PNone
                (init_app 0 None)))))"
  using C1_faults_sticky[of
      "fst (check_faults example_builtins 1 (PStr ''pressure_high_high_level'') PNone (init_app 0 None))"
      example_builtins "[(2, PNone, PStr ''standby'')]" example_config "SelectorEdge 3"]
  by (simp add: check_faults_def Let_def init_app_def selector_button_callback_def clear_faults_def)

text \<open>
  C2, as amended. One fault check sets the high-high-pressure flag when one of the two
  status values is the pressure code. It sets the low-low-tank-level flag when one of
  them is the tank code and none is the pressure code: the tank test is the \<open>elif\<close>
  of the pressure test. It never sets a flag false.
\<close>

theorem C2_check_faults_sets:
  "hh_pressure_active (fst (check_faults B t p1 p2 s)) =
     (hh_pressure_active s \<or> p1 = PStr ''pressure_high_high_level'' \<or> p2 = PStr ''pressure_high_high_level'')
   \<and> ll_tank_level_active (fst (check_faults B t p1 p2 s)) =
     (ll_tank_level_active s \<or>
       (p1 \<noteq> PStr ''pressure_high_high_level'' \<and> p2 \<noteq> PStr ''pressure_high_high_level'' \<and>
        (p1 = PStr ''tank_level_low_low_level'' \<or> p2 = PStr ''tank_level_low_low_level'')))"
  by (simp add: check_faults_def Let_def)

theorem C2_check_faults_sets_witness:
  "ll_tank_level_active
     (fst (check_faults example_builtins 1 (PStr ''standby'') (PStr ''tank_level_low_low_level'')
             (init_app 0 None)))
   \<and> \<not> hh_pressure_active
     (fst (check_faults example_builtins 1 (PStr ''standby'') (PStr ''tank_level_low_low_level'')
             (init_app 0 None)))"
  using C2_check_faults_sets[of example_builtins 1 "PStr ''standby''"
      "PStr ''tank_level_low_low_level''" "init_app 0 None"]
  by (simp add: init_app_def)

text \<open>
  The claim as written fails when one status is the pressure code and the other the
  tank code: only the pressure flag is set.
\<close>

theorem C2_counterexample:
  "hh_pressure_active (fst (check_faults example_builtins 1 (PStr ''pressure_high_high_level'')
       (PStr ''tank_level_low_low_level'') (init_app 0 None)))
   \<and> \<not> ll_tank_level_active (fst (check_faults example_builtins 1 (PStr ''pressure_high_high_level'')
       (PStr ''tank_level_low_low_level'') (init_app 0 None)))"
  by (simp add: check_faults_def Let_def init_app_def)

text \<open>
  C3. An edge of the selector button while a fault flag is active clears both flags,
  also in the snapshot of the dashboard, and leaves the selection as it is. While no
  flag is active it moves the selection to the other of pump 1 and pump 2 and leaves
  both flags and the snapshot as they are.
\<close>

theorem C3_selector:
  "(hh_pressure_active s \<or> ll_tank_level_active s \<longrightarrow>
      \<not> hh_pressure_active (fst (selector_button_callback B t s)) \<and>
      \<not> ll_tank_level_active (fst (selector_button_callback B t s)) \<and>
      \<not> faults (data (dashboard (iface (fst (selector_button_callback B t s))))) hh_pressure \<and>
      \<not> faults (data (dashboard (iface (fst (selector_button_callback B t s))))) ll_tank_level \<and>
      selected_pump (iface (fst (selector_button_callback B t s))) = selected_pump (iface s))
   \<and> (\<not> hh_pressure_active s \<and> \<not> ll_tank_level_active s \<longrightarrow>
      selected_pump (iface (fst (selector_button_callback B t s))) \<in> {1, 2} \<and>
      selected_pump (iface (fst (selector_button_callback B t s))) \<noteq> selected_pump (iface s) \<and>
      (selected_pump (iface s) = 1 \<longrightarrow> selected_pump (iface (fst (selector_button_callback B t s))) = 2) \<and>
      (selected_pump (iface s) = 2 \<longrightarrow> selected_pump (iface (fst (selector_button_callback B t s))) = 1) \<and>
      hh_pressure_active (fst (selector_button_callback B t s)) = hh_pressure_active s \<and>
      ll_tank_level_active (fst (selector_button_callback B t s)) = ll_tank_level_active s \<and>
      data (dashboard (iface (fst (selector_button_callback B t s)))) = data (dashboard (iface s)))"
proof -
  have clear: "\<not> faults (data (dashboard (fst (set_faults B t False False (iface s'))))) hh_pressure \<and>
               \<not> faults (data (dashboard (fst (set_faults B t False False (iface s'))))) ll_tank_level"
    for s' :: app
    using set_faults_data[of B t False False "iface s'"] by simp
  show ?thesis
    using clear[of "s\<lparr>hh_pressure_active := False, ll_tank_level_active := False\<rparr>"]
    by (auto simp add: selector_button_callback_def clear_faults_def toggleSelectedPump_def Let_def)
qed

theorem C3_selector_witness:
  "hh_pressure_active
     (fst (check_faults example_builtins 1 (PStr ''pressure_high_high_level'') PNone (init_app 0 None)))
   \<and> selected_pump (iface (fst (selector_button_callback example_builtins 2
        (fst (check_faults example_builtins 1 (PStr ''pressure_high_high_level'') PNone
                (init_app 0 None))))))
       = 1
   \<and> \<not> hh_pressure_active (init_app 0 None) \<and> \<not> ll_tank_level_active (init_app 0 None)
   \<and> selected_pump (iface (init_app 0 None)) = 1
   \<and> selected_pump (iface (fst (selector_button_callback example_builtins 2 (init_app 0 None)))) = 2"
  using C3_selector[of
      "fst (check_faults example_builtins 1 (PStr ''pressure_high_high_level'') PNone (init_app 0 None))"
      example_builtins 2]
    C3_selector[of "init_app 0 None" example_builtins 2]
  by (simp add: check_faults_def Let_def init_app_def selector_button_callback_def clear_faults_def
      toggleSelectedPump_def)

text \<open>
  C6. After start, the first edge of the start input writes no state; every later one
  writes the running code 2 once, to the pump selected at that moment. An edge of the
  stop input writes the standby code 0 once, to the selected pump.
\<close>

theorem C6_start_stop:
  "(StartEdge \<notin> set es \<longrightarrow>
      snd (step B cfg StartEdge (run B cfg es (init_app t ai0))) = [])
   \<and> (StartEdge \<in> set es \<longrightarrow>
      snd (step B cfg StartEdge (run B cfg es (init_app t ai0))) =
        [SetTag ''StateWrite'' (PInt 2) (selected_app cfg (run B cfg es (init_app t ai0)))])
   \<and> snd (step B cfg StopEdge (run B cfg es (init_app t ai0))) =
        [SetTag ''StateWrite'' (PInt 0) (selected_app cfg (run B cfg es (init_app t ai0)))]"
proof -
  define s where "s = run B cfg es (init_app t ai0)"
  have sel: "selected_pump (iface s) \<in> {1, 2}"
    unfolding s_def by (rule run_selected) (simp add: init_app_def)
  have sfc: "start_first_callback s = (StartEdge \<in> set es)"
    unfolding s_def by (simp add: run_first_callback init_app_def)
  show ?thesis
    unfolding s_def[symmetric] using sel sfc
    by (auto simp add: start_pump_callback_def stop_pump_callback_def update_pump_state_tag_def
        getSelectedPump_def selected_app_def)
qed

theorem C6_start_stop_witness:
  "snd (step example_builtins example_config StartEdge
         (run example_builtins example_config [] (init_app 0 None))) = []
   \<and> snd (step example_builtins example_config StartEdge
         (run example_builtins example_config [StartEdge, SelectorEdge 1] (init_app 0 None))) =
       [SetTag ''StateWrite'' (PInt 2) ''pump_2_app'']
   \<and> snd (step example_builtins example_config StopEdge
         (run example_builtins example_config [StartEdge, SelectorEdge 1] (init_app 0 None))) =
       [SetTag ''StateWrite'' (PInt 0) ''pump_2_app'']"
  using C6_start_stop[of "[]" example_builtins example_config 0 None]
    C6_start_stop[of "[StartEdge, SelectorEdge 1]" example_builtins example_config 0 None]
  by (simp add: selected_app_def init_app_def selector_button_callback_def toggleSelectedPump_def
      start_pump_callback_def example_config_def Let_def)








text \<open>
  C8. A missing reading does raise: with no potentiometer reading, or with a reading and
  no stored reading, \<open>update_target_rate\<close> raises TypeError, and the tick ends after the
  fault check, before the dashboard and LED steps.
\<close>

theorem C8_missing_reading_raises:
  "update_target_rate cfg None sv s = Inl TypeError
   \<and> update_target_rate cfg (Some a) sv (s\<lparr>last_ai_input := None\<rparr>) = Inl TypeError
   \<and> main_loop B cfg (inp\<lparr>ai_input := None\<rparr>) s =
       Inl (TypeError, check_faults B (now inp) (p1_app_state inp) (p2_app_state inp) s)"
  by (simp add: update_target_rate_def near_last_def Let_def main_loop_def split: prod.splits)

text \<open>
  C10. A numeric leaf value can make the update raise: an int beyond the range of a
  float makes \<open>float\<close> raise OverflowError, which \<open>_update_numeric\<close> does not catch.
\<close>

theorem C10_overflow_raises:
  "update_from_dict B t [(''pump'', PDict [(''target_rate'', PInt (10 ^ 400))])] d =
     Inl (OverflowError, d)"
  by (simp add: update_from_dict_def update_fields_def in_section_def sec_pump_def then_numeric_def
      then_string_def sec_faults_def Let_def update_numeric_def dict_get_def py_float_def)

section \<open>The update of the snapshot, statement by statement\<close>
























text \<open>
  A pass of the background thread sets the timestamp and changes no field.
\<close>

lemma background_update_timestamp:
  "timestamp (data (fst (background_update B t dash))) = t \<and>
   \<not> fields_differ (data dash) (data (fst (background_update B t dash)))"
  by (simp add: background_update_def fields_differ_def)




end
